theory Spec2Isabelle
  imports Main "HOL-Library.Word"
begin

section \<open>Strings\<close>

text \<open>
  A string of the host language is a sequence of 16-bit code units. A string literal of
  the source is written \<open>str ''...''\<close>, each character standing for the code unit of its
  code.
\<close>

type_synonym codeUnit = "16 word"

type_synonym jsString = "codeUnit list"

definition str :: "string \<Rightarrow> jsString" where
  "str s = map of_char s"

text \<open>
  \<^verbatim>\<open>s.split(d)\<close> for a one-unit separator: the pieces between the separators, one piece
  more than there are separators (so the empty string splits into one empty piece).
  \<^verbatim>\<open>parts.join('')\<close> concatenates the pieces.
\<close>

fun split :: "'a \<Rightarrow> 'a list \<Rightarrow> 'a list list" where
  "split d [] = [[]]"
| "split d (c # cs) =
     (if c = d then [] # split d cs
      else (case split d cs of
              [] \<Rightarrow> [[c]]
            | p # ps \<Rightarrow> (c # p) # ps))"

definition join :: "'a list list \<Rightarrow> 'a list" where
  "join parts = concat parts"

section \<open>The host language\<close>

text \<open>
  What a property read by a computed key finds in a member of \<^verbatim>\<open>Object.prototype\<close>: a
  getter that throws, \<^verbatim>\<open>undefined\<close> or \<^verbatim>\<open>null\<close>, another falsy value, or a truthy value.
\<close>

datatype Readout = Throws | Nullish | Falsy | Truthy

text \<open>
  The runtime of the host language, as far as the two source files use it: the two case
  mappings of strings (which work on whole strings: they are neither unit-wise nor
  length-preserving), and the members every object literal inherits from
  \<^verbatim>\<open>Object.prototype\<close>, each with what a read by a computed key finds in it.
\<close>

record Host =
  toLowerCase :: "jsString \<Rightarrow> jsString"
  toUpperCase :: "jsString \<Rightarrow> jsString"
  objectPrototype :: "jsString \<rightharpoonup> (jsString \<Rightarrow> Readout)"

text \<open>
  \<^verbatim>\<open>obj[key]\<close> on an object literal or a parsed JSON object: the object's own property, else
  the member inherited from \<^verbatim>\<open>Object.prototype\<close>, else \<^verbatim>\<open>undefined\<close>. An inherited member
  is a function (or \<^verbatim>\<open>Object.prototype\<close> itself): it is truthy, and it has none of the fields
  the source reads by name (\<^verbatim>\<open>methods\<close>, \<^verbatim>\<open>description\<close>, \<^verbatim>\<open>type\<close>, \<^verbatim>\<open>default\<close>, \<^verbatim>\<open>version\<close>,
  \<^verbatim>\<open>map\<close>), nor has any value read from it.
\<close>

datatype 'a Property = Own 'a | Inherited "jsString \<Rightarrow> Readout" | Undefined

definition getProperty :: "Host \<Rightarrow> (jsString \<rightharpoonup> 'a) \<Rightarrow> jsString \<Rightarrow> 'a Property" where
  "getProperty h obj key =
     (case obj key of
        Some v \<Rightarrow> Own v
      | None \<Rightarrow>
          (case objectPrototype h key of
             Some member \<Rightarrow> Inherited member
           | None \<Rightarrow> Undefined))"

text \<open>
  The case mappings on ASCII strings: the letters \<open>A\<close> to \<open>Z\<close> and \<open>a\<close> to \<open>z\<close> are
  exchanged unit by unit, every other ASCII unit is kept.
\<close>

definition isAscii :: "jsString \<Rightarrow> bool" where
  "isAscii s = list_all (\<lambda>c. c < 0x80) s"

definition asciiLower :: "codeUnit \<Rightarrow> codeUnit" where
  "asciiLower c = (if 0x41 \<le> c \<and> c \<le> 0x5A then c + 0x20 else c)"

definition asciiUpper :: "codeUnit \<Rightarrow> codeUnit" where
  "asciiUpper c = (if 0x61 \<le> c \<and> c \<le> 0x7A then c - 0x20 else c)"

definition asciiToLowerCase :: "jsString \<Rightarrow> jsString" where
  "asciiToLowerCase s = map asciiLower s"

definition asciiToUpperCase :: "jsString \<Rightarrow> jsString" where
  "asciiToUpperCase s = map asciiUpper s"

section \<open>Data model\<close>

datatype error =
    TypeError                \<comment> \<open>a property read or a method call on \<^verbatim>\<open>undefined\<close>\<close>
  | IllegalArgument          \<comment> \<open>the editor's \<^verbatim>\<open>Position\<close> constructor on a negative coordinate\<close>
  | AntdRushError jsString   \<comment> \<open>\<^verbatim>\<open>throw antdRushErrorMsg(msg)\<close>\<close>

datatype DocLanguage = En | Zh

datatype NodeType = Component | Props

record AstNodeType =
  nodeType_type :: NodeType

record Location =
  uri_path :: jsString
  range_line :: nat
  range_character :: nat

text \<open>One entry of the component catalog; \<^verbatim>\<open>methods\<close> may be absent.\<close>

record ComponentEntry =
  methods :: "jsString list option"

text \<open>
  The catalog \<^verbatim>\<open>antdComponentMap\<close> is an object literal: an association list of its own
  properties in the order of \<^verbatim>\<open>Object.keys\<close>, read by key through \<^const>\<open>getProperty\<close>.
\<close>

type_synonym ComponentMap = "(jsString \<times> ComponentEntry) list"

definition Object_keys :: "ComponentMap \<Rightarrow> jsString list" where
  "Object_keys m = map fst m"

record PropDoc =
  doc_description :: jsString
  doc_type :: jsString
  doc_default :: jsString
  doc_version :: jsString

type_synonym ComponentsDoc = "jsString \<rightharpoonup> (jsString \<rightharpoonup> PropDoc)"

type_synonym ComponentsRawDoc = "jsString \<rightharpoonup> jsString list"

text \<open>
  A row handed to \<^verbatim>\<open>composeCardMessage\<close>: label, value (which may be \<^verbatim>\<open>undefined\<close>) and
  the optional display mode.
\<close>

record CardRow =
  row_label :: jsString
  row_value :: "jsString option"
  row_display :: "jsString option"

text \<open>
  Markdown values. The head line of a component card is kept as the data its template
  string is filled with: the component name, the localized hint, and the two
  documentation links in the order they are printed.
\<close>

datatype DocLink = DocLink DocLanguage jsString

datatype Markdown =
    MarkdownString jsString
  | HeadMarkdown jsString jsString "DocLink list"

datatype Hover = Hover "Markdown list"

datatype ClassDeclaration = ClassDeclaration jsString

datatype InsertKind = Direct | Inquiry

datatype CompletionItemKind = Method

record Range =
  start_line :: nat
  start_character :: nat
  end_line :: nat
  end_character :: nat

record Command =
  cmd_title :: jsString
  cmd_command :: jsString
  arg_range :: Range
  arg_handlerName :: jsString
  arg_insertKind :: "InsertKind Property"
  arg_classComponentParent :: "ClassDeclaration option"

record CompletionItem =
  item_label :: jsString
  item_kind :: CompletionItemKind
  item_documentation :: "Markdown option"
  item_insertText :: "jsString option"
  item_command :: Command

text \<open>The static tables, loaded once: the catalog and the two documentation tables.\<close>

record Resources =
  antdComponentMap :: ComponentMap
  antdDocJson :: "DocLanguage \<Rightarrow> ComponentsDoc"
  rawTableJson :: "DocLanguage \<Rightarrow> ComponentsRawDoc"

text \<open>
  What lies outside the two source files, as it answers for the document and position of
  one request: the editor's two definition providers (which may answer \<^verbatim>\<open>undefined\<close>),
  the syntax-tree helpers, and the helper functions of the utility module.
\<close>

record Externals =
  executeDefinitionProvider :: "Location list option"
  executeTypeDefinitionProvider :: "Location list option"
  getContainerSymbolAtLocation :: "Location \<Rightarrow> jsString option"
  getClosetAntdJsxElementNode :: "jsString option"
  getParentsWhen :: "ClassDeclaration option"
  matchNodeModules :: "jsString \<Rightarrow> bool"
  matchAntdModule :: "jsString \<Rightarrow> jsString option"
  composeCardMessage :: "CardRow list \<Rightarrow> DocLanguage \<Rightarrow> Markdown"
  composeDocLink :: "jsString \<Rightarrow> DocLanguage \<Rightarrow> jsString"
  intl :: "jsString \<Rightarrow> DocLanguage \<Rightarrow> jsString"
  addHandlerPrefix :: "jsString \<Rightarrow> jsString"

text \<open>The effects a request has on the outside, in the order they happen.\<close>

datatype Effect =
    ExecuteDefinitionProvider
  | ExecuteTypeDefinitionProvider
  | GetContainerSymbolAtLocation Location
  | GetClosetAntdJsxElementNode
  | GetParentsWhen
  | ConsoleInfo jsString

text \<open>
  The fields of a provider object (the hover provider and the completion provider have
  the same, but for the completion context): the word under the cursor
  (\<^verbatim>\<open>document.getText\<close> of the word range at the position), the cursor position, the
  cancellation token, the trigger character of the completion context, and the
  configured language.
\<close>

record Provider =
  propText :: jsString
  position_line :: nat
  position_character :: nat
  isCancellationRequested :: bool
  triggerCharacter :: "jsString option"
  language :: DocLanguage

section \<open>The hover provider\<close>

definition normalizeName :: "Host \<Rightarrow> jsString \<Rightarrow> jsString" where
  "normalizeName h raw = toLowerCase h (join (split 0x2E raw))"

text \<open>
  \<^verbatim>\<open>Object.keys(m).find(p)\<close> is \<^const>\<open>List.find\<close>. A key found is then tested for
  truthiness (\<^verbatim>\<open>if (key)\<close>, \<^verbatim>\<open>if (!key)\<close>): \<^verbatim>\<open>undefined\<close> and the empty string are falsy.
\<close>

definition truthy :: "jsString option \<Rightarrow> bool" where
  "truthy v = (case v of None \<Rightarrow> False | Some s \<Rightarrow> s \<noteq> [])"

definition fuzzySearchComponentMapping ::
  "Host \<Rightarrow> ComponentMap \<Rightarrow> jsString \<Rightarrow> jsString option" where
  "fuzzySearchComponentMapping h m fuzzyName =
     (let exactKey = List.find (\<lambda>com. normalizeName h com = normalizeName h fuzzyName)
                       (Object_keys m)
      in if \<not> truthy exactKey then None else exactKey)"

definition tryMatchComponentName ::
  "Host \<Rightarrow> ComponentMap \<Rightarrow> jsString \<Rightarrow> jsString \<Rightarrow> jsString option" where
  "tryMatchComponentName h m symbolName libName =
     (let exactKey = List.find (\<lambda>com. normalizeName h com = normalizeName h symbolName)
                       (Object_keys m)
      in if truthy exactKey then exactKey
         else
           let libKey = List.find (\<lambda>com. normalizeName h com = normalizeName h libName)
                          (Object_keys m)
           in if truthy libKey then libKey
              else
                let fuzzyKey = List.find
                      (\<lambda>com. normalizeName h com = normalizeName h (libName @ symbolName))
                      (Object_keys m)
                in if \<not> truthy fuzzyKey then None else fuzzyKey)"

text \<open>\<^verbatim>\<open>xs || []\<close> for a list that may be \<^verbatim>\<open>undefined\<close>.\<close>

definition orEmpty :: "'a list option \<Rightarrow> 'a list" where
  "orEmpty xs = (case xs of None \<Rightarrow> [] | Some ys \<Rightarrow> ys)"

definition getDefinitionInAntdModule :: "Externals \<Rightarrow> Effect list \<times> Location option" where
  "getDefinitionInAntdModule ext =
     (let definitions = executeDefinitionProvider ext;
          typeDefinitions = executeTypeDefinitionProvider ext;
          definitionsUnderAntd =
            filter (\<lambda>d. matchNodeModules ext (uri_path d)) (orEmpty definitions);
          typeDefinitionsUnderAntd =
            filter (\<lambda>d. matchNodeModules ext (uri_path d)) (orEmpty typeDefinitions);
          info1 = (if length typeDefinitionsUnderAntd > 1
                   then [ConsoleInfo (str ''[antd-rush]: get more than one type definition'')]
                   else []);
          info2 = (if length definitionsUnderAntd > 1
                   then [ConsoleInfo (str ''[antd-rush]: get more than one definition'')]
                   else [])
      in ([ExecuteDefinitionProvider, ExecuteTypeDefinitionProvider] @ info1 @ info2,
          (case typeDefinitionsUnderAntd of
             t # _ \<Rightarrow> Some t
           | [] \<Rightarrow> (case definitionsUnderAntd of d # _ \<Rightarrow> Some d | [] \<Rightarrow> None))))"

text \<open>
  \<^verbatim>\<open>name[0]\<close> is the first code unit, as a one-unit string; on the empty name it is
  \<^verbatim>\<open>undefined\<close>, and the call of \<^verbatim>\<open>toUpperCase\<close> on it fails.
\<close>

definition getAstNodeType :: "Host \<Rightarrow> jsString \<Rightarrow> error + AstNodeType" where
  "getAstNodeType h name =
     (case name of
        [] \<Rightarrow> Inl TypeError
      | c # _ \<Rightarrow>
          Inr \<lparr>nodeType_type = (if toUpperCase h [c] \<noteq> [c] then Props else Component)\<rparr>)"

text \<open>
  The card of the props branch, from the four fields read of the documentation entry
  (each \<^verbatim>\<open>undefined\<close> when what was read is not a documentation entry).
\<close>

definition propsCard ::
  "Externals \<Rightarrow> DocLanguage \<Rightarrow> jsString option \<Rightarrow> jsString option \<Rightarrow> jsString option
     \<Rightarrow> jsString option \<Rightarrow> Hover" where
  "propsCard ext lang desc type defaultValue version =
     Hover [composeCardMessage ext
              [\<lparr>row_label = str ''description'', row_value = desc, row_display = None\<rparr>,
               \<lparr>row_label = str ''type'', row_value = type, row_display = None\<rparr>,
               \<lparr>row_label = str ''default'', row_value = defaultValue, row_display = None\<rparr>,
               \<lparr>row_label = str ''version'', row_value = version, row_display = None\<rparr>]
              lang]"

text \<open>The props hover card (the first branch of \<^verbatim>\<open>provideHover\<close>).\<close>

definition propsHover ::
  "Host \<Rightarrow> Resources \<Rightarrow> Externals \<Rightarrow> Provider \<Rightarrow> Effect list \<times> (error + Hover option)" where
  "propsHover h res ext p =
     ([GetClosetAntdJsxElementNode],
      (case getClosetAntdJsxElementNode ext of
         None \<Rightarrow> Inr None
       | Some antdComponentName \<Rightarrow>
           if antdComponentName = [] then Inr None
           else
             (case fuzzySearchComponentMapping h (antdComponentMap res) antdComponentName of
                None \<Rightarrow> Inr None
              | Some fuzzyComponentName \<Rightarrow>
                  if fuzzyComponentName = [] then Inr None
                  else
                    (case getProperty h (antdDocJson res (language p)) fuzzyComponentName of
                       Undefined \<Rightarrow>
                         Inl (AntdRushError
                                (str ''did not match component for '' @ fuzzyComponentName))
                     | Own matchedComponent \<Rightarrow>
                         (case getProperty h matchedComponent (propText p) of
                            Undefined \<Rightarrow> Inl TypeError
                          | Own d \<Rightarrow>
                              Inr (Some (propsCard ext (language p)
                                (Some (doc_description d)) (Some (doc_type d))
                                (Some (doc_default d)) (Some (doc_version d))))
                          | Inherited _ \<Rightarrow>
                              Inr (Some (propsCard ext (language p) None None None None)))
                     | Inherited member \<Rightarrow>
                         (case member (propText p) of
                            Throws \<Rightarrow> Inl TypeError
                          | Nullish \<Rightarrow> Inl TypeError
                          | Falsy \<Rightarrow>
                              Inr (Some (propsCard ext (language p) None None None None))
                          | Truthy \<Rightarrow>
                              Inr (Some (propsCard ext (language p) None None None None)))))))"

text \<open>The component hover card (the second branch of \<^verbatim>\<open>provideHover\<close>).\<close>

definition componentHover ::
  "Host \<Rightarrow> Resources \<Rightarrow> Externals \<Rightarrow> Provider \<Rightarrow> Location \<Rightarrow> jsString
     \<Rightarrow> error + Hover option" where
  "componentHover h res ext p definitionLoc interaceName =
     (let definitionPath = uri_path definitionLoc in
      case matchAntdModule ext definitionPath of
        None \<Rightarrow> Inr None
      | Some componentFolder \<Rightarrow>
          (case tryMatchComponentName h (antdComponentMap res) interaceName componentFolder of
             None \<Rightarrow> Inr None
           | Some comName \<Rightarrow>
               if comName = [] then Inr None
               else if getProperty h (map_of (antdComponentMap res)) comName = Undefined
               then Inl (AntdRushError (str ''did not match component for '' @ comName))
               else
                 (let enDocLink = DocLink En (composeDocLink ext componentFolder En);
                      zhDocLink = DocLink Zh (composeDocLink ext componentFolder Zh);
                      docLinks = (if language p = En then [enDocLink, zhDocLink]
                                  else [zhDocLink, enDocLink]);
                      headMd = HeadMarkdown comName
                                 (intl ext (str ''componentHint'') (language p)) docLinks
                  in case getProperty h (rawTableJson res (language p)) comName of
                       Own tables \<Rightarrow> Inr (Some (Hover (headMd # map MarkdownString tables)))
                     | Inherited _ \<Rightarrow> Inl TypeError
                     | Undefined \<Rightarrow> Inl TypeError)))"

definition provideHover ::
  "Host \<Rightarrow> Resources \<Rightarrow> Externals \<Rightarrow> Provider \<Rightarrow> Effect list \<times> (error + Hover option)" where
  "provideHover h res ext p =
     (case getDefinitionInAntdModule ext of
        (e1, None) \<Rightarrow> (e1, Inr None)
      | (e1, Some definitionLoc) \<Rightarrow>
          (let e2 = e1 @ [GetContainerSymbolAtLocation definitionLoc] in
           case getContainerSymbolAtLocation ext definitionLoc of
             None \<Rightarrow> (e2, Inr None)
           | Some interaceName \<Rightarrow>
               (case getAstNodeType h interaceName of
                  Inl err \<Rightarrow> (e2, Inl err)
                | Inr nodeType \<Rightarrow>
                    if nodeType_type nodeType = Props then
                      (case propsHover h res ext p of (e3, r) \<Rightarrow> (e2 @ e3, r))
                    else if nodeType_type nodeType = Component then
                      (e2, componentHover h res ext p definitionLoc interaceName)
                    else (e2, Inr None))))"

section \<open>The completion provider\<close>

definition insertKindMapping :: "jsString \<rightharpoonup> InsertKind" where
  "insertKindMapping = map_of [(str ''!'', Direct), (str ''#'', Inquiry)]"

text \<open>The card of a handler, from the four fields destructured of its documentation.\<close>

definition handlerCard ::
  "Externals \<Rightarrow> DocLanguage \<Rightarrow> jsString option \<Rightarrow> jsString option \<Rightarrow> jsString option
     \<Rightarrow> jsString option \<Rightarrow> Markdown" where
  "handlerCard ext lang description type defaultValue version =
     composeCardMessage ext
       [\<lparr>row_label = str ''type'', row_value = type, row_display = Some (str ''blockCode'')\<rparr>,
        \<lparr>row_label = str ''description'', row_value = description, row_display = None\<rparr>,
        \<lparr>row_label = str ''default'', row_value = defaultValue, row_display = None\<rparr>,
        \<lparr>row_label = str ''version'', row_value = version, row_display = None\<rparr>]
       lang"

definition getHandlerDocument ::
  "Host \<Rightarrow> Resources \<Rightarrow> Externals \<Rightarrow> Provider \<Rightarrow> jsString \<Rightarrow> jsString
     \<Rightarrow> error + Markdown option" where
  "getHandlerDocument h res ext p componentName handlerName =
     (case getProperty h (antdDocJson res (language p)) componentName of
        Undefined \<Rightarrow> Inr None
      | Own componentDoc \<Rightarrow>
          (case getProperty h componentDoc handlerName of
             Undefined \<Rightarrow> Inr None
           | Own propDoc \<Rightarrow>
               Inr (Some (handlerCard ext (language p)
                 (Some (doc_description propDoc)) (Some (doc_type propDoc))
                 (Some (doc_default propDoc)) (Some (doc_version propDoc))))
           | Inherited _ \<Rightarrow> Inr (Some (handlerCard ext (language p) None None None None)))
      | Inherited member \<Rightarrow>
          (case member handlerName of
             Throws \<Rightarrow> Inl TypeError
           | Nullish \<Rightarrow> Inr None
           | Falsy \<Rightarrow> Inr None
           | Truthy \<Rightarrow> Inr (Some (handlerCard ext (language p) None None None None))))"

text \<open>
  The range of the trigger symbol ends at the cursor and starts one column before it; the
  editor's \<^verbatim>\<open>Position\<close> constructor rejects the negative column that column 0 gives.
  \<^verbatim>\<open>triggerChar || '#'\<close> takes \<^verbatim>\<open>'#'\<close> for an absent and for an empty trigger character.
\<close>

definition transformHandlerToItem ::
  "Host \<Rightarrow> Resources \<Rightarrow> Externals \<Rightarrow> Provider \<Rightarrow> jsString \<Rightarrow> jsString
     \<Rightarrow> ClassDeclaration option \<Rightarrow> error + CompletionItem" where
  "transformHandlerToItem h res ext p componentName handlerName classComponentParent =
     (let isInClassComponent = (classComponentParent \<noteq> None)
      in case getHandlerDocument h res ext p componentName handlerName of
           Inl err \<Rightarrow> Inl err
         | Inr doc \<Rightarrow>
             if position_character p = 0 then Inl IllegalArgument
             else
               let sharpSymbolRange =
                     \<lparr>start_line = position_line p,
                      start_character = position_character p - 1,
                      end_line = position_line p, end_character = position_character p\<rparr>;
                   triggerChar = triggerCharacter p;
                   insertKind = getProperty h insertKindMapping
                     (case triggerChar of
                        None \<Rightarrow> str ''#''
                      | Some t \<Rightarrow> if t = [] then str ''#'' else t);
                   insertText =
                     (if insertKind = Own Direct then
                        Some (handlerName @ str ''={''
                              @ (if isInClassComponent then str ''this.'' else [])
                              @ addHandlerPrefix ext handlerName @ str ''} '')
                      else if insertKind = Own Inquiry then Some handlerName
                      else None);
                   cmd = \<lparr>cmd_title = str ''afterCompletion'',
                          cmd_command = str ''antdRush.afterCompletion'',
                          arg_range = sharpSymbolRange, arg_handlerName = handlerName,
                          arg_insertKind = insertKind,
                          arg_classComponentParent = classComponentParent\<rparr>
               in Inr \<lparr>item_label = handlerName, item_kind = Method,
                       item_documentation = doc, item_insertText = insertText,
                       item_command = cmd\<rparr>)"

text \<open>\<^verbatim>\<open>xs.map(f)\<close> where \<^verbatim>\<open>f\<close> may throw: the first exception ends the whole map.\<close>

fun mapE :: "('a \<Rightarrow> error + 'b) \<Rightarrow> 'a list \<Rightarrow> error + 'b list" where
  "mapE f [] = Inr []"
| "mapE f (x # xs) =
     (case f x of
        Inl e \<Rightarrow> Inl e
      | Inr y \<Rightarrow> (case mapE f xs of Inl e \<Rightarrow> Inl e | Inr ys \<Rightarrow> Inr (y # ys)))"

definition provideCompletionItems ::
  "Host \<Rightarrow> Resources \<Rightarrow> Externals \<Rightarrow> Provider
     \<Rightarrow> Effect list \<times> (error + CompletionItem list)" where
  "provideCompletionItems h res ext p =
     (if isCancellationRequested p then ([], Inr [])
      else
        (case getClosetAntdJsxElementNode ext of
           None \<Rightarrow> ([GetClosetAntdJsxElementNode], Inr [])
         | Some componentName \<Rightarrow>
             (case getProperty h (map_of (antdComponentMap res)) componentName of
                Undefined \<Rightarrow> ([GetClosetAntdJsxElementNode], Inl TypeError)
              | Inherited _ \<Rightarrow> ([GetClosetAntdJsxElementNode], Inr [])
              | Own entry \<Rightarrow>
                  (case methods entry of
                     None \<Rightarrow> ([GetClosetAntdJsxElementNode], Inr [])
                   | Some availableHandler \<Rightarrow>
                       (let classComponentParent = getParentsWhen ext
                        in ([GetClosetAntdJsxElementNode, GetParentsWhen],
                            mapE (\<lambda>handlerName.
                                    transformHandlerToItem h res ext p componentName
                                      handlerName classComponentParent)
                              availableHandler))))))"

section \<open>Catalog matching as the specification words it\<close>

text \<open>
  The matcher of the specification: \<open>matchExact\<close> finds the first catalog key equal to a
  name under normalization, and \<open>resolve\<close> tries the symbol name, then the folder name,
  then the folder name followed by the symbol name, and answers the first hit.
\<close>

definition spec_matchExact :: "Host \<Rightarrow> jsString list \<Rightarrow> jsString \<Rightarrow> jsString option" where
  "spec_matchExact h keys name =
     List.find (\<lambda>key. normalizeName h key = normalizeName h name) keys"

definition spec_resolve ::
  "Host \<Rightarrow> jsString list \<Rightarrow> jsString \<Rightarrow> jsString \<Rightarrow> jsString option" where
  "spec_resolve h keys symbolName folderName =
     (case spec_matchExact h keys symbolName of
        Some key \<Rightarrow> Some key
      | None \<Rightarrow>
          (case spec_matchExact h keys folderName of
             Some key \<Rightarrow> Some key
           | None \<Rightarrow> spec_matchExact h keys (folderName @ symbolName)))"

section \<open>A small catalog and its surroundings\<close>

text \<open>
  A host for requests whose names are ASCII: its case mappings are the ASCII ones, and
  its \<^verbatim>\<open>Object.prototype\<close> has the twelve standard members. A read by a computed key in
  one of them is answered for the names of \<^verbatim>\<open>Object.prototype\<close> only (they are found
  again, but for \<^verbatim>\<open>__proto__\<close> of \<^verbatim>\<open>Object.prototype\<close> itself, which is \<^verbatim>\<open>null\<close>); what else
  a member has differs between versions of the runtime, and no request below reads it.
\<close>

definition objectPrototypeNames :: "jsString list" where
  "objectPrototypeNames =
     map str [''constructor'', ''__defineGetter__'', ''__defineSetter__'', ''hasOwnProperty'',
              ''__lookupGetter__'', ''__lookupSetter__'', ''isPrototypeOf'',
              ''propertyIsEnumerable'', ''toString'', ''valueOf'', ''__proto__'',
              ''toLocaleString'']"

definition asciiHost :: Host where
  "asciiHost =
     \<lparr>toLowerCase = asciiToLowerCase,
      toUpperCase = asciiToUpperCase,
      objectPrototype =
        map_of (map (\<lambda>name. (name, (\<lambda>key. if key \<in> set objectPrototypeNames
                                                \<and> \<not> (name = str ''__proto__''
                                                       \<and> key = str ''__proto__'')
                                              then Truthy else Nullish)))
                  objectPrototypeNames)\<rparr>"

definition buttonPropDoc :: PropDoc where
  "buttonPropDoc =
     \<lparr>doc_description = str ''set the handler to handle focus'',
      doc_type = str ''(event) => void'',
      doc_default = str ''-'', doc_version = []\<rparr>"

definition demoCatalog :: ComponentMap where
  "demoCatalog =
     [(str ''Button'', \<lparr>methods = Some [str ''onClick'', str ''onFocus'']\<rparr>),
      (str ''TableColumn'', \<lparr>methods = None\<rparr>)]"

definition demoResources :: Resources where
  "demoResources =
     \<lparr>antdComponentMap = demoCatalog,
      antdDocJson = (\<lambda>lang. [str ''Button'' \<mapsto> [str ''onFocus'' \<mapsto> buttonPropDoc]]),
      rawTableJson = (\<lambda>lang. [str ''Button'' \<mapsto> [str ''| Property | Description |'']])\<rparr>"

definition antdLocation :: Location where
  "antdLocation =
     \<lparr>uri_path = str ''/app/node_modules/antd/lib/button/button.d.ts'',
      range_line = 10, range_character = 2\<rparr>"

definition foreignLocation :: Location where
  "foreignLocation =
     \<lparr>uri_path = str ''/app/src/widgets/button.tsx'', range_line = 3, range_character = 0\<rparr>"

definition typeLocation :: Location where
  "typeLocation =
     \<lparr>uri_path = str ''/app/node_modules/antd/lib/button/button.d.ts'',
      range_line = 42, range_character = 0\<rparr>"

definition rowText :: "CardRow \<Rightarrow> jsString" where
  "rowText row = (case row_value row of None \<Rightarrow> [] | Some v \<Rightarrow> v)"

definition demoExternals :: Externals where
  "demoExternals =
     \<lparr>executeDefinitionProvider = Some [antdLocation],
      executeTypeDefinitionProvider = None,
      getContainerSymbolAtLocation = (\<lambda>loc. Some (str ''onClick'')),
      getClosetAntdJsxElementNode = Some (str ''Button''),
      getParentsWhen = None,
      matchNodeModules = (\<lambda>path. take 23 path = str ''/app/node_modules/antd/''),
      matchAntdModule = (\<lambda>path. if take 23 path = str ''/app/node_modules/antd/''
                                  then Some (str ''button'') else None),
      composeCardMessage = (\<lambda>rows lang. MarkdownString (concat (map rowText rows))),
      composeDocLink = (\<lambda>folder lang. str ''https://ant.design/components/'' @ folder),
      intl = (\<lambda>key lang. key),
      addHandlerPrefix = (\<lambda>handlerName. str ''handle'' @ handlerName)\<rparr>"

definition demoProvider :: Provider where
  "demoProvider =
     \<lparr>propText = str ''onClick'', position_line = 7, position_character = 12,
      isCancellationRequested = False, triggerCharacter = Some (str ''#''), language = En\<rparr>"

section \<open>Evaluation rules\<close>

lemmas string_eval = normalizeName_def join_def str_def asciiHost_def asciiToLowerCase_def
  asciiToUpperCase_def asciiLower_def asciiUpper_def

lemmas demo_eval = demoResources_def demoExternals_def demoProvider_def demoCatalog_def
  antdLocation_def foreignLocation_def typeLocation_def buttonPropDoc_def rowText_def
  objectPrototypeNames_def

lemmas hover_eval = provideHover_def getDefinitionInAntdModule_def orEmpty_def getAstNodeType_def
  propsHover_def componentHover_def propsCard_def fuzzySearchComponentMapping_def
  tryMatchComponentName_def Object_keys_def truthy_def getProperty_def

lemmas completion_eval = provideCompletionItems_def transformHandlerToItem_def
  getHandlerDocument_def handlerCard_def insertKindMapping_def getProperty_def

section \<open>Normalization\<close>

lemma split_not_Nil: "split d s \<noteq> []"
  by (induction s) (auto split: list.splits)

lemma join_split: "join (split d s) = filter (\<lambda>c. c \<noteq> d) s"
  by (induction s) (auto simp: join_def split_not_Nil split: list.splits)

lemma normalizeName_filter:
  "normalizeName h raw = toLowerCase h (filter (\<lambda>c. c \<noteq> 0x2E) raw)"
  by (simp add: normalizeName_def join_split)

lemma filter_no_dot: "d \<notin> set s \<Longrightarrow> filter (\<lambda>c. c \<noteq> d) s = s"
  by (induction s) auto

lemma asciiLower_idem: "asciiLower (asciiLower c) = asciiLower c"
  by (auto simp: asciiLower_def word_le_nat_alt unat_word_ariths)

lemma asciiLower_dot: "asciiLower c = 0x2E \<longleftrightarrow> c = 0x2E"
proof
  assume a: "asciiLower c = 0x2E"
  show "c = 0x2E"
  proof (cases "0x41 \<le> c \<and> c \<le> 0x5A")
    case True
    with a have "c + 0x20 = 0x2E" by (simp add: asciiLower_def)
    then have "c = 0x2E - 0x20" by (simp add: eq_diff_eq)
    then have "c = 0x0E" by simp
    with True show ?thesis by simp
  next
    case False
    with a show ?thesis by (simp add: asciiLower_def)
  qed
next
  assume "c = 0x2E"
  then show "asciiLower c = 0x2E" by (simp add: asciiLower_def)
qed

lemma asciiToLowerCase_idem: "asciiToLowerCase (asciiToLowerCase s) = asciiToLowerCase s"
  by (simp add: asciiToLowerCase_def asciiLower_idem)

lemma asciiToLowerCase_no_dot:
  assumes "0x2E \<notin> set s"
  shows "0x2E \<notin> set (asciiToLowerCase s)"
proof
  assume "0x2E \<in> set (asciiToLowerCase s)"
  then obtain c where c: "c \<in> set s" "asciiLower c = 0x2E"
    by (auto simp: asciiToLowerCase_def)
  then have "c = 0x2E" by (simp add: asciiLower_dot)
  with c assms show False by simp
qed

text \<open>
  C9. Name normalization is idempotent for every string: normalizing an already
  normalized name changes nothing, where normalization removes every \<open>.\<close> and lowercases
  what is left. The lowercase mapping is the host's, of which two facts are used: it is
  idempotent, and it puts no \<open>.\<close> into a string that has none.
\<close>

theorem normalizeName_idempotent:
  assumes idem: "\<And>t. toLowerCase h (toLowerCase h t) = toLowerCase h t"
      and no_dot: "\<And>t. 0x2E \<notin> set t \<Longrightarrow> 0x2E \<notin> set (toLowerCase h t)"
  shows "normalizeName h (normalizeName h s) = normalizeName h s
         \<and> normalizeName h s = toLowerCase h (filter (\<lambda>c. c \<noteq> 0x2E) s)"
proof
  let ?r = "filter (\<lambda>c. c \<noteq> 0x2E) s"
  have "0x2E \<notin> set ?r" by simp
  then have "0x2E \<notin> set (toLowerCase h ?r)" by (rule no_dot)
  then have "filter (\<lambda>c. c \<noteq> 0x2E) (toLowerCase h ?r) = toLowerCase h ?r"
    by (rule filter_no_dot)
  then show "normalizeName h (normalizeName h s) = normalizeName h s"
    by (simp add: normalizeName_filter idem)
  show "normalizeName h s = toLowerCase h ?r"
    by (rule normalizeName_filter)
qed

text \<open>
  C9 at the host with the ASCII lowercase mapping, which has the two facts, and the name
  \<open>Table.Column\<close>: its normal form is \<open>tablecolumn\<close>, and so is the normal form of that.
\<close>

theorem normalizeName_idempotent_witness:
  "normalizeName asciiHost (str ''Table.Column'') = str ''tablecolumn''
   \<and> normalizeName asciiHost (normalizeName asciiHost (str ''Table.Column''))
       = str ''tablecolumn''"
proof -
  have h1: "\<And>t. toLowerCase asciiHost (toLowerCase asciiHost t) = toLowerCase asciiHost t"
    by (simp add: asciiHost_def asciiToLowerCase_idem)
  have h2: "\<And>t. 0x2E \<notin> set t \<Longrightarrow> 0x2E \<notin> set (toLowerCase asciiHost t)"
    by (simp add: asciiHost_def asciiToLowerCase_no_dot)
  have v: "normalizeName asciiHost (str ''Table.Column'') = str ''tablecolumn''"
    by (simp add: string_eval)
  from normalizeName_idempotent [of asciiHost "str ''Table.Column''", OF h1 h2]
  have i: "normalizeName asciiHost (normalizeName asciiHost (str ''Table.Column''))
          = normalizeName asciiHost (str ''Table.Column'')"
    by (rule conjunct1)
  from v i show ?thesis by simp
qed

section \<open>The catalog matcher\<close>

lemma truthy_find:
  "[] \<notin> set xs \<Longrightarrow> truthy (List.find P xs) \<longleftrightarrow> List.find P xs \<noteq> None"
  by (induction xs) (auto simp: truthy_def)

lemma tryMatch_spec:
  assumes "[] \<notin> set (Object_keys m)"
  shows "tryMatchComponentName h m symbolName libName
           = spec_resolve h (Object_keys m) symbolName libName"
  using assms
  by (auto simp: tryMatchComponentName_def spec_resolve_def spec_matchExact_def Let_def truthy_find
      split: option.splits)

lemma find_distinct_key:
  "distinct (map f xs) \<Longrightarrow> k \<in> set xs \<Longrightarrow> f k = v \<Longrightarrow> List.find (\<lambda>x. f x = v) xs = Some k"
  by (induction xs) auto

lemma find_SomeD: "List.find P xs = Some x \<Longrightarrow> x \<in> set xs \<and> P x"
  by (auto simp: find_Some_iff)

lemma spec_matchExact_None:
  "spec_matchExact h keys name = None
     \<longleftrightarrow> (\<forall>k\<in>set keys. normalizeName h k \<noteq> normalizeName h name)"
  by (auto simp: spec_matchExact_def find_None_iff)

lemma spec_matchExact_Some:
  "spec_matchExact h keys name = Some k
     \<Longrightarrow> k \<in> set keys \<and> normalizeName h k = normalizeName h name"
  unfolding spec_matchExact_def by (rule find_SomeD)

text \<open>
  C1. Over a catalog of non-empty component names, \<open>tryMatchComponentName\<close> is the
  three-tier resolve of the specification, for every symbol name and folder name: it
  tries the normalized symbol name, then the normalized folder name, then the normalized
  concatenation of folder name and symbol name against the normalized catalog keys,
  answers the first catalog key that hits, and answers null exactly when all three tiers
  fail. A symbol name that matches a catalog key under normalization is answered from the
  first tier whatever the folder name is, and the answer is that very key when the keys
  are pairwise different under normalization (the catalog's invariant). Then symbol
  \<open>Column\<close> in folder \<open>Table\<close> yields \<open>TableColumn\<close> when the catalog has \<open>TableColumn\<close>
  and no key matching \<open>Column\<close> or \<open>Table\<close>. This holds whatever the host's lowercase
  mapping is.
\<close>

theorem tryMatchComponentName_tiers:
  assumes nonempty: "[] \<notin> set (Object_keys m)"
  shows "tryMatchComponentName h m symbolName libName
           = spec_resolve h (Object_keys m) symbolName libName
       \<and> (tryMatchComponentName h m symbolName libName = None \<longleftrightarrow>
            (\<forall>k\<in>set (Object_keys m).
               normalizeName h k \<noteq> normalizeName h symbolName
               \<and> normalizeName h k \<noteq> normalizeName h libName
               \<and> normalizeName h k \<noteq> normalizeName h (libName @ symbolName)))
       \<and> (key \<in> set (Object_keys m) \<and> normalizeName h key = normalizeName h exactName
            \<longrightarrow> tryMatchComponentName h m exactName anyFolder
                  = spec_matchExact h (Object_keys m) exactName
                \<and> tryMatchComponentName h m exactName anyFolder \<noteq> None
                \<and> (distinct (map (normalizeName h) (Object_keys m))
                     \<longrightarrow> tryMatchComponentName h m exactName anyFolder = Some key))
       \<and> (distinct (map (normalizeName h) (Object_keys m))
            \<and> str ''TableColumn'' \<in> set (Object_keys m)
            \<and> (\<forall>k\<in>set (Object_keys m).
                  normalizeName h k \<noteq> normalizeName h (str ''Column'')
                  \<and> normalizeName h k \<noteq> normalizeName h (str ''Table''))
            \<longrightarrow> tryMatchComponentName h m (str ''Column'') (str ''Table'')
                  = Some (str ''TableColumn''))"
proof (intro conjI impI)
  show spec: "tryMatchComponentName h m symbolName libName
           = spec_resolve h (Object_keys m) symbolName libName"
    by (rule tryMatch_spec [OF nonempty])
  show "tryMatchComponentName h m symbolName libName = None \<longleftrightarrow>
            (\<forall>k\<in>set (Object_keys m).
               normalizeName h k \<noteq> normalizeName h symbolName
               \<and> normalizeName h k \<noteq> normalizeName h libName
               \<and> normalizeName h k \<noteq> normalizeName h (libName @ symbolName))"
    unfolding spec
    by (auto simp: spec_resolve_def spec_matchExact_None split: option.splits
        dest: spec_matchExact_Some)
next
  assume k: "key \<in> set (Object_keys m) \<and> normalizeName h key = normalizeName h exactName"
  then have hit: "spec_matchExact h (Object_keys m) exactName \<noteq> None"
    by (auto simp: spec_matchExact_None)
  then show first: "tryMatchComponentName h m exactName anyFolder
                      = spec_matchExact h (Object_keys m) exactName"
    by (auto simp: tryMatch_spec [OF nonempty] spec_resolve_def split: option.splits)
  from hit show "tryMatchComponentName h m exactName anyFolder \<noteq> None"
    by (simp add: first)
  assume "distinct (map (normalizeName h) (Object_keys m))"
  with k have "spec_matchExact h (Object_keys m) exactName = Some key"
    unfolding spec_matchExact_def by (simp add: find_distinct_key)
  then show "tryMatchComponentName h m exactName anyFolder = Some key"
    by (simp add: first)
next
  assume a: "distinct (map (normalizeName h) (Object_keys m))
            \<and> str ''TableColumn'' \<in> set (Object_keys m)
            \<and> (\<forall>k\<in>set (Object_keys m).
                  normalizeName h k \<noteq> normalizeName h (str ''Column'')
                  \<and> normalizeName h k \<noteq> normalizeName h (str ''Table''))"
  have n1: "spec_matchExact h (Object_keys m) (str ''Column'') = None"
    and n2: "spec_matchExact h (Object_keys m) (str ''Table'') = None"
    using a by (simp_all add: spec_matchExact_None)
  have eq: "str ''TableColumn'' = str ''Table'' @ str ''Column''"
    by (simp add: str_def)
  have "spec_matchExact h (Object_keys m) (str ''Table'' @ str ''Column'')
          = Some (str ''TableColumn'')"
    unfolding spec_matchExact_def
    using a eq by (intro find_distinct_key) auto
  then show "tryMatchComponentName h m (str ''Column'') (str ''Table'')
               = Some (str ''TableColumn'')"
    by (simp add: tryMatch_spec [OF nonempty] spec_resolve_def n1 n2)
qed

text \<open>
  C1 at the catalog with the keys \<open>Button\<close> and \<open>TableColumn\<close>: the concatenation tier
  finds \<open>TableColumn\<close>, folder \<open>Grid\<close> finds nothing, and \<open>BUTTON\<close> finds \<open>Button\<close> in
  any folder.
\<close>

theorem tryMatchComponentName_tiers_witness:
  "[] \<notin> set (Object_keys demoCatalog)
   \<and> distinct (map (normalizeName asciiHost) (Object_keys demoCatalog))
   \<and> tryMatchComponentName asciiHost demoCatalog (str ''Column'') (str ''Table'')
       = Some (str ''TableColumn'')
   \<and> tryMatchComponentName asciiHost demoCatalog (str ''Column'') (str ''Grid'') = None
   \<and> tryMatchComponentName asciiHost demoCatalog (str ''BUTTON'') (str ''Grid'')
       = Some (str ''Button'')"
proof -
  have h1: "[] \<notin> set (Object_keys demoCatalog)"
    by (simp add: Object_keys_def demoCatalog_def str_def)
  have h2: "distinct (map (normalizeName asciiHost) (Object_keys demoCatalog))"
    by (simp add: Object_keys_def demoCatalog_def string_eval)
  have k: "str ''Button'' \<in> set (Object_keys demoCatalog)
             \<and> normalizeName asciiHost (str ''Button'') = normalizeName asciiHost (str ''BUTTON'')"
    by (simp add: Object_keys_def demoCatalog_def string_eval)
  have t: "str ''TableColumn'' \<in> set (Object_keys demoCatalog)
            \<and> (\<forall>k\<in>set (Object_keys demoCatalog).
                  normalizeName asciiHost k \<noteq> normalizeName asciiHost (str ''Column'')
                  \<and> normalizeName asciiHost k \<noteq> normalizeName asciiHost (str ''Table''))"
    by (simp add: Object_keys_def demoCatalog_def string_eval)
  have g: "\<forall>k\<in>set (Object_keys demoCatalog).
               normalizeName asciiHost k \<noteq> normalizeName asciiHost (str ''Column'')
               \<and> normalizeName asciiHost k \<noteq> normalizeName asciiHost (str ''Grid'')
               \<and> normalizeName asciiHost k \<noteq> normalizeName asciiHost (str ''Grid'' @ str ''Column'')"
    by (simp add: Object_keys_def demoCatalog_def string_eval)
  note inst = tryMatchComponentName_tiers
    [OF h1, of asciiHost "str ''Column''" "str ''Grid''" "str ''Button''" "str ''BUTTON''"
       "str ''Grid''"]
  from inst k t g h1 h2 show ?thesis by blast
qed

section \<open>Definition locations\<close>

lemma filter_head_find:
  "(case filter P xs of [] \<Rightarrow> None | x # _ \<Rightarrow> Some x) = List.find P xs"
  by (induction xs) auto

lemma getDefinition_find:
  "snd (getDefinitionInAntdModule ext) =
     (case List.find (\<lambda>d. matchNodeModules ext (uri_path d))
             (orEmpty (executeTypeDefinitionProvider ext)) of
        Some t \<Rightarrow> Some t
      | None \<Rightarrow> List.find (\<lambda>d. matchNodeModules ext (uri_path d))
                  (orEmpty (executeDefinitionProvider ext)))"
proof -
  let ?P = "\<lambda>d. matchNodeModules ext (uri_path d)"
  have "snd (getDefinitionInAntdModule ext) =
      (case filter ?P (orEmpty (executeTypeDefinitionProvider ext)) of
         [] \<Rightarrow> (case filter ?P (orEmpty (executeDefinitionProvider ext)) of
                  [] \<Rightarrow> None | d # _ \<Rightarrow> Some d)
       | t # _ \<Rightarrow> Some t)"
    by (simp add: getDefinitionInAntdModule_def Let_def split: list.splits)
  also have "\<dots> = (case List.find ?P (orEmpty (executeTypeDefinitionProvider ext)) of
        Some t \<Rightarrow> Some t
      | None \<Rightarrow> List.find ?P (orEmpty (executeDefinitionProvider ext)))"
    unfolding filter_head_find [symmetric] by (simp split: list.splits)
  finally show ?thesis .
qed

lemma provideHover_no_definition:
  "snd (getDefinitionInAntdModule ext) = None \<Longrightarrow> snd (provideHover h res ext p) = Inr None"
  by (cases "getDefinitionInAntdModule ext") (simp add: provideHover_def)

text \<open>
  C7. When a type-definition location lies under the module path, the location used is a
  type-definition location under the module path (the first one), whatever plain
  definitions there are; the plain definitions are consulted only when no type-definition
  location survives the filter, and the answer is null when no location of either kind
  does.
\<close>

theorem typeDefinition_preferred:
  "(t \<in> set (orEmpty (executeTypeDefinitionProvider ext)) \<and> matchNodeModules ext (uri_path t)
      \<longrightarrow> snd (getDefinitionInAntdModule ext)
            = List.find (\<lambda>d. matchNodeModules ext (uri_path d))
                (orEmpty (executeTypeDefinitionProvider ext))
          \<and> (\<exists>t'\<in>set (orEmpty (executeTypeDefinitionProvider ext)).
                 matchNodeModules ext (uri_path t')
                 \<and> snd (getDefinitionInAntdModule ext) = Some t'))
   \<and> ((\<forall>t\<in>set (orEmpty (executeTypeDefinitionProvider ext)). \<not> matchNodeModules ext (uri_path t))
      \<longrightarrow> snd (getDefinitionInAntdModule ext)
            = List.find (\<lambda>d. matchNodeModules ext (uri_path d))
                (orEmpty (executeDefinitionProvider ext)))
   \<and> ((\<forall>t\<in>set (orEmpty (executeTypeDefinitionProvider ext)). \<not> matchNodeModules ext (uri_path t))
       \<and> (\<forall>d\<in>set (orEmpty (executeDefinitionProvider ext)). \<not> matchNodeModules ext (uri_path d))
      \<longrightarrow> snd (getDefinitionInAntdModule ext) = None)"
  by (auto simp: getDefinition_find find_None_iff split: option.splits dest: find_SomeD)

text \<open>
  C7 at three requests: a type definition and a plain definition both under the module
  path give the type definition; a foreign type definition gives the plain definition;
  foreign locations only give null.
\<close>

theorem typeDefinition_preferred_witness:
  "snd (getDefinitionInAntdModule
          (demoExternals\<lparr>executeTypeDefinitionProvider := Some [typeLocation]\<rparr>)) = Some typeLocation
   \<and> snd (getDefinitionInAntdModule
          (demoExternals\<lparr>executeTypeDefinitionProvider := Some [foreignLocation]\<rparr>))
       = Some antdLocation
   \<and> snd (getDefinitionInAntdModule
          (demoExternals\<lparr>executeTypeDefinitionProvider := Some [foreignLocation],
                          executeDefinitionProvider := Some [foreignLocation]\<rparr>)) = None"
proof -
  let ?e1 = "demoExternals\<lparr>executeTypeDefinitionProvider := Some [typeLocation]\<rparr>"
  let ?e2 = "demoExternals\<lparr>executeTypeDefinitionProvider := Some [foreignLocation]\<rparr>"
  let ?e3 = "demoExternals\<lparr>executeTypeDefinitionProvider := Some [foreignLocation],
                          executeDefinitionProvider := Some [foreignLocation]\<rparr>"
  have h1: "typeLocation \<in> set (orEmpty (executeTypeDefinitionProvider ?e1))
            \<and> matchNodeModules ?e1 (uri_path typeLocation)"
    by (simp add: orEmpty_def demo_eval str_def)
  have h2: "\<forall>t\<in>set (orEmpty (executeTypeDefinitionProvider ?e2)).
              \<not> matchNodeModules ?e2 (uri_path t)"
    by (simp add: orEmpty_def demo_eval str_def)
  have h3: "(\<forall>t\<in>set (orEmpty (executeTypeDefinitionProvider ?e3)).
              \<not> matchNodeModules ?e3 (uri_path t))
            \<and> (\<forall>d\<in>set (orEmpty (executeDefinitionProvider ?e3)).
              \<not> matchNodeModules ?e3 (uri_path d))"
    by (simp add: orEmpty_def demo_eval str_def)
  have r1: "snd (getDefinitionInAntdModule ?e1) = Some typeLocation"
    using typeDefinition_preferred [of typeLocation ?e1] h1
    by (simp add: orEmpty_def demo_eval str_def)
  have r2: "snd (getDefinitionInAntdModule ?e2) = Some antdLocation"
    using typeDefinition_preferred [of typeLocation ?e2] h2
    by (simp add: orEmpty_def demo_eval str_def)
  have r3: "snd (getDefinitionInAntdModule ?e3) = None"
    using typeDefinition_preferred [of typeLocation ?e3] h3 by blast
  from r1 r2 r3 show ?thesis by simp
qed

text \<open>
  C5. The location \<open>getDefinitionInAntdModule\<close> answers is one of the locations the two
  providers returned and its path lies under the module path: every location outside is
  filtered out. When every returned location lies outside, there is no definition location
  and the hover request produces nothing, whatever the other steps would do.
\<close>

theorem foreign_locations_filtered:
  "(snd (getDefinitionInAntdModule ext) = Some loc
      \<longrightarrow> matchNodeModules ext (uri_path loc)
          \<and> loc \<in> set (orEmpty (executeTypeDefinitionProvider ext))
                  \<union> set (orEmpty (executeDefinitionProvider ext)))
   \<and> ((\<forall>l\<in>set (orEmpty (executeTypeDefinitionProvider ext))
              \<union> set (orEmpty (executeDefinitionProvider ext)).
          \<not> matchNodeModules ext (uri_path l))
      \<longrightarrow> snd (getDefinitionInAntdModule ext) = None
          \<and> snd (provideHover h res ext p) = Inr None)"
proof (intro conjI impI)
  assume "snd (getDefinitionInAntdModule ext) = Some loc"
  then show "matchNodeModules ext (uri_path loc)"
    and "loc \<in> set (orEmpty (executeTypeDefinitionProvider ext))
                  \<union> set (orEmpty (executeDefinitionProvider ext))"
    by (auto simp: getDefinition_find split: option.splits dest: find_SomeD)
next
  assume a: "\<forall>l\<in>set (orEmpty (executeTypeDefinitionProvider ext))
              \<union> set (orEmpty (executeDefinitionProvider ext)).
          \<not> matchNodeModules ext (uri_path l)"
  then show n: "snd (getDefinitionInAntdModule ext) = None"
    by (auto simp: getDefinition_find find_None_iff split: option.splits dest: find_SomeD)
  then show "snd (provideHover h res ext p) = Inr None"
    by (rule provideHover_no_definition)
qed

text \<open>
  C5 at two requests: of a foreign and a library location the library one is answered;
  with the foreign location alone the hover is empty, where the same request with the
  library location produces a card.
\<close>

theorem foreign_locations_filtered_witness:
  "snd (getDefinitionInAntdModule
          (demoExternals\<lparr>executeDefinitionProvider := Some [foreignLocation, antdLocation]\<rparr>))
     = Some antdLocation
   \<and> matchNodeModules demoExternals (uri_path antdLocation)
   \<and> snd (provideHover asciiHost demoResources
            (demoExternals\<lparr>executeDefinitionProvider := Some [foreignLocation]\<rparr>)
            (demoProvider\<lparr>propText := str ''onFocus''\<rparr>)) = Inr None
   \<and> snd (provideHover asciiHost demoResources demoExternals
            (demoProvider\<lparr>propText := str ''onFocus''\<rparr>))
       \<noteq> Inr None"
proof -
  let ?e1 = "demoExternals\<lparr>executeDefinitionProvider := Some [foreignLocation, antdLocation]\<rparr>"
  let ?e2 = "demoExternals\<lparr>executeDefinitionProvider := Some [foreignLocation]\<rparr>"
  let ?p = "demoProvider\<lparr>propText := str ''onFocus''\<rparr>"
  have r1: "snd (getDefinitionInAntdModule ?e1) = Some antdLocation"
    by (simp add: getDefinitionInAntdModule_def orEmpty_def demo_eval str_def)
  have h2: "\<forall>l\<in>set (orEmpty (executeTypeDefinitionProvider ?e2))
              \<union> set (orEmpty (executeDefinitionProvider ?e2)).
          \<not> matchNodeModules ?e2 (uri_path l)"
    by (simp add: orEmpty_def demo_eval str_def)
  have m: "matchNodeModules demoExternals (uri_path antdLocation)"
    using foreign_locations_filtered [of ?e1 antdLocation asciiHost demoResources demoProvider] r1
    by simp
  have r2: "snd (provideHover asciiHost demoResources ?e2 ?p) = Inr None"
    using foreign_locations_filtered [of ?e2 antdLocation asciiHost demoResources ?p] h2
    by blast
  have r3: "snd (provideHover asciiHost demoResources demoExternals ?p) \<noteq> Inr None"
    by (simp add: hover_eval demo_eval string_eval)
  from r1 m r2 r3 show ?thesis by simp
qed

section \<open>The symbol classifier\<close>

lemma asciiUpper_differs: "asciiUpper c \<noteq> c \<longleftrightarrow> 0x61 \<le> c \<and> c \<le> 0x7A"
  by (simp add: asciiUpper_def)

text \<open>
  C8, as stated, at the empty name: the name has no first character whose uppercase form
  could differ, yet the classifier does not answer \<open>component\<close> (nor \<open>props\<close>): reading
  the missing first character fails, whatever the host's uppercase mapping is.
\<close>

theorem getAstNodeType_empty_counterexample:
  "getAstNodeType asciiHost [] = Inl TypeError
   \<and> getAstNodeType asciiHost [] \<noteq> Inr \<lparr>nodeType_type = Component\<rparr>
   \<and> getAstNodeType asciiHost [] \<noteq> Inr \<lparr>nodeType_type = Props\<rparr>"
  by (simp add: getAstNodeType_def)

text \<open>
  C8, amended. For every non-empty name the classifier answers \<open>props\<close> when the uppercase
  form of the first character, as the host maps it, differs from the character itself,
  and \<open>component\<close> otherwise. In particular, with a host whose uppercase mapping is the
  ASCII one on ASCII strings (as the runtime's is), \<open>Button\<close> is a component and
  \<open>onClick\<close> is a prop, and a name with an ASCII first character is a prop exactly when
  that character is a letter \<open>a\<close> to \<open>z\<close>.
\<close>

theorem getAstNodeType_classifies:
  assumes "name \<noteq> []"
  shows "getAstNodeType h name =
           Inr \<lparr>nodeType_type =
                  (if toUpperCase h [hd name] \<noteq> [hd name] then Props else Component)\<rparr>
         \<and> ((\<forall>s. isAscii s \<longrightarrow> toUpperCase h s = asciiToUpperCase s)
              \<longrightarrow> getAstNodeType h (str ''Button'') = Inr \<lparr>nodeType_type = Component\<rparr>
                \<and> getAstNodeType h (str ''onClick'') = Inr \<lparr>nodeType_type = Props\<rparr>
                \<and> (hd name < 0x80
                     \<longrightarrow> (getAstNodeType h name = Inr \<lparr>nodeType_type = Props\<rparr>
                            \<longleftrightarrow> 0x61 \<le> hd name \<and> hd name \<le> 0x7A)))"
proof (intro conjI impI)
  from assms obtain c cs where n: "name = c # cs" by (cases name) auto
  show "getAstNodeType h name =
           Inr \<lparr>nodeType_type =
                  (if toUpperCase h [hd name] \<noteq> [hd name] then Props else Component)\<rparr>"
    by (simp add: n getAstNodeType_def)
  assume ascii: "\<forall>s. isAscii s \<longrightarrow> toUpperCase h s = asciiToUpperCase s"
  have one: "toUpperCase h [u] = [asciiUpper u]" if "u < 0x80" for u
    using ascii that by (simp add: isAscii_def asciiToUpperCase_def)
  have B: "toUpperCase h [0x42] = [0x42]"
    using one [of "0x42"] by (simp add: asciiUpper_def)
  have o: "toUpperCase h [0x6F] = [0x4F]"
    using one [of "0x6F"] by (simp add: asciiUpper_def)
  show "getAstNodeType h (str ''Button'') = Inr \<lparr>nodeType_type = Component\<rparr>"
    by (simp add: getAstNodeType_def str_def B)
  show "getAstNodeType h (str ''onClick'') = Inr \<lparr>nodeType_type = Props\<rparr>"
    by (simp add: getAstNodeType_def str_def o)
  assume "hd name < 0x80"
  then have "toUpperCase h [c] = [asciiUpper c]" by (simp add: n one)
  then show "getAstNodeType h name = Inr \<lparr>nodeType_type = Props\<rparr>
               \<longleftrightarrow> 0x61 \<le> hd name \<and> hd name \<le> 0x7A"
    by (simp add: n getAstNodeType_def asciiUpper_differs)
qed

text \<open>
  C8, amended, at three names: a lowercase first letter, an uppercase first letter, and a
  first character that has no case.
\<close>

theorem getAstNodeType_classifies_witness:
  "str ''zIndex'' \<noteq> []
   \<and> getAstNodeType asciiHost (str ''zIndex'') = Inr \<lparr>nodeType_type = Props\<rparr>
   \<and> getAstNodeType asciiHost (str ''Table'') = Inr \<lparr>nodeType_type = Component\<rparr>
   \<and> getAstNodeType asciiHost (str ''_internal'') = Inr \<lparr>nodeType_type = Component\<rparr>
   \<and> getAstNodeType asciiHost (str ''Button'') = Inr \<lparr>nodeType_type = Component\<rparr>
   \<and> getAstNodeType asciiHost (str ''onClick'') = Inr \<lparr>nodeType_type = Props\<rparr>"
proof -
  have a: "str ''zIndex'' \<noteq> []" and b: "str ''Table'' \<noteq> []" and c: "str ''_internal'' \<noteq> []"
    by (simp_all add: str_def)
  have u: "\<forall>s. isAscii s \<longrightarrow> toUpperCase asciiHost s = asciiToUpperCase s"
    by (simp add: asciiHost_def)
  have z: "hd (str ''zIndex'') < 0x80 \<and> 0x61 \<le> hd (str ''zIndex'') \<and> hd (str ''zIndex'') \<le> 0x7A"
    by (simp add: str_def)
  have T: "hd (str ''Table'') < 0x80 \<and> \<not> 0x61 \<le> hd (str ''Table'')"
    by (simp add: str_def)
  have i: "hd (str ''_internal'') < 0x80 \<and> \<not> 0x61 \<le> hd (str ''_internal'')"
    by (simp add: str_def)
  have r1: "getAstNodeType asciiHost (str ''zIndex'') = Inr \<lparr>nodeType_type = Props\<rparr>"
    using getAstNodeType_classifies [OF a, of asciiHost] u z by blast
  have r2: "getAstNodeType asciiHost (str ''Table'') = Inr \<lparr>nodeType_type = Component\<rparr>"
    using getAstNodeType_classifies [OF b, of asciiHost] u T
    by (auto split: if_splits)
  have r3: "getAstNodeType asciiHost (str ''_internal'') = Inr \<lparr>nodeType_type = Component\<rparr>"
    using getAstNodeType_classifies [OF c, of asciiHost] u i
    by (auto split: if_splits)
  have r4: "getAstNodeType asciiHost (str ''Button'') = Inr \<lparr>nodeType_type = Component\<rparr>"
    and r5: "getAstNodeType asciiHost (str ''onClick'') = Inr \<lparr>nodeType_type = Props\<rparr>"
    using getAstNodeType_classifies [OF a, of asciiHost] u by blast+
  from a r1 r2 r3 r4 r5 show ?thesis by blast
qed

text \<open>
  C10. The classifier fails on the empty name instead of answering \<open>component\<close> or
  \<open>props\<close>. A hover request whose container-symbol lookup answers the empty string
  therefore ends in that failure, not in an empty result: the caller stops only for a
  null container-symbol name.
\<close>

theorem empty_container_symbol_crashes:
  "getAstNodeType h [] = Inl TypeError
   \<and> (snd (getDefinitionInAntdModule ext) = Some loc
        \<and> getContainerSymbolAtLocation ext loc = Some []
      \<longrightarrow> snd (provideHover h res ext p) = Inl TypeError)
   \<and> (snd (getDefinitionInAntdModule ext) = Some loc
        \<and> getContainerSymbolAtLocation ext loc = None
      \<longrightarrow> snd (provideHover h res ext p) = Inr None)"
  by (cases "getDefinitionInAntdModule ext")
     (auto simp: provideHover_def getAstNodeType_def Let_def)

text \<open>
  C10 at a request whose definition lies in the library: the empty container-symbol name
  fails, the null one gives the empty result.
\<close>

theorem empty_container_symbol_crashes_witness:
  "snd (getDefinitionInAntdModule demoExternals) = Some antdLocation
   \<and> snd (provideHover asciiHost demoResources
            (demoExternals\<lparr>getContainerSymbolAtLocation := (\<lambda>loc. Some [])\<rparr>) demoProvider)
       = Inl TypeError
   \<and> snd (provideHover asciiHost demoResources
            (demoExternals\<lparr>getContainerSymbolAtLocation := (\<lambda>loc. None)\<rparr>) demoProvider)
       = Inr None"
proof -
  let ?e1 = "demoExternals\<lparr>getContainerSymbolAtLocation := (\<lambda>loc. Some [])\<rparr>"
  let ?e2 = "demoExternals\<lparr>getContainerSymbolAtLocation := (\<lambda>loc. None)\<rparr>"
  have d: "snd (getDefinitionInAntdModule demoExternals) = Some antdLocation"
    by (simp add: getDefinitionInAntdModule_def orEmpty_def demo_eval str_def)
  have d1: "snd (getDefinitionInAntdModule ?e1) = Some antdLocation
            \<and> getContainerSymbolAtLocation ?e1 antdLocation = Some []"
    by (simp add: getDefinitionInAntdModule_def orEmpty_def demo_eval str_def)
  have d2: "snd (getDefinitionInAntdModule ?e2) = Some antdLocation
            \<and> getContainerSymbolAtLocation ?e2 antdLocation = None"
    by (simp add: getDefinitionInAntdModule_def orEmpty_def demo_eval str_def)
  have r1: "snd (provideHover asciiHost demoResources ?e1 demoProvider) = Inl TypeError"
    using empty_container_symbol_crashes
            [of asciiHost ?e1 antdLocation demoResources demoProvider] d1
    by blast
  have r2: "snd (provideHover asciiHost demoResources ?e2 demoProvider) = Inr None"
    using empty_container_symbol_crashes
            [of asciiHost ?e2 antdLocation demoResources demoProvider] d2
    by blast
  from d r1 r2 show ?thesis by simp
qed

section \<open>The props hover card\<close>

text \<open>
  What the props branch does when the documentation table disagrees with the catalog: a
  component without a record is reported by the descriptive error; a component whose
  record has no entry for the hovered prop is not, the read of the entry's fields fails.
\<close>

lemma propsHover_missing_component:
  assumes "getClosetAntdJsxElementNode ext = Some name" "name \<noteq> []"
    and "fuzzySearchComponentMapping h (antdComponentMap res) name = Some key"
    and "getProperty h (antdDocJson res (language p)) key = Undefined"
  shows "snd (propsHover h res ext p)
           = Inl (AntdRushError (str ''did not match component for '' @ key))"
  using assms
  by (auto simp: propsHover_def fuzzySearchComponentMapping_def truthy_def Let_def
      split: if_splits option.splits)

lemma propsHover_missing_prop:
  assumes "getClosetAntdJsxElementNode ext = Some name" "name \<noteq> []"
    and "fuzzySearchComponentMapping h (antdComponentMap res) name = Some key"
    and "getProperty h (antdDocJson res (language p)) key = Own componentDoc"
    and "getProperty h componentDoc (propText p) = Undefined"
  shows "snd (propsHover h res ext p) = Inl TypeError"
  using assms
  by (auto simp: propsHover_def fuzzySearchComponentMapping_def truthy_def Let_def
      split: if_splits option.splits)

text \<open>
  C2 at the request it names: the catalog has \<open>Button\<close> with the handler \<open>onClick\<close>, the
  documentation table has a record for \<open>Button\<close> that omits \<open>onClick\<close>, and the hover is
  on \<open>onClick\<close> inside a \<open>Button\<close> element. The request fails, but with the type error of
  reading a field of an absent entry, not with the descriptive consistency error.
\<close>

theorem missing_prop_record_is_TypeError:
  "provideHover asciiHost demoResources demoExternals demoProvider =
     ([ExecuteDefinitionProvider, ExecuteTypeDefinitionProvider,
       GetContainerSymbolAtLocation antdLocation, GetClosetAntdJsxElementNode],
      Inl TypeError)"
  by (simp add: hover_eval demo_eval string_eval)

section \<open>Cancellation\<close>

lemma provideCompletionItems_cancelled:
  "isCancellationRequested p \<Longrightarrow> provideCompletionItems h res ext p = ([], Inr [])"
  by (simp add: provideCompletionItems_def)

text \<open>
  C4 at a hover request whose token is already cancelled: the hover provider never reads
  its token. It calls both definition providers, the container-symbol lookup and the
  syntax-tree walker, and answers a hover card, where the completion provider returns
  the empty result at once and calls nothing.
\<close>

theorem provideHover_ignores_cancellation:
  "provideHover asciiHost demoResources demoExternals
     (demoProvider\<lparr>propText := str ''onFocus'', isCancellationRequested := True\<rparr>) =
     ([ExecuteDefinitionProvider, ExecuteTypeDefinitionProvider,
       GetContainerSymbolAtLocation antdLocation, GetClosetAntdJsxElementNode],
      Inr (Some (Hover
        [MarkdownString (str ''set the handler to handle focus(event) => void-'')])))"
  by (simp add: hover_eval demo_eval string_eval)

section \<open>Completion\<close>

text \<open>
  The cases in which the completion request answers the empty list without raising: no
  element around the cursor, a name that is a catalog entry without a handler list, and
  a name the catalog object only inherits.
\<close>

lemma provideCompletionItems_empty_cases:
  assumes "getClosetAntdJsxElementNode ext = None
           \<or> (\<exists>componentName entry.
                 getClosetAntdJsxElementNode ext = Some componentName
                 \<and> getProperty h (map_of (antdComponentMap res)) componentName = Own entry
                 \<and> methods entry = None)
           \<or> (\<exists>componentName member.
                 getClosetAntdJsxElementNode ext = Some componentName
                 \<and> getProperty h (map_of (antdComponentMap res)) componentName
                     = Inherited member)"
  shows "snd (provideCompletionItems h res ext p) = Inr []"
  using assms by (auto simp: provideCompletionItems_def)

lemma provideCompletionItems_unknown_component:
  assumes "\<not> isCancellationRequested p"
    and "getClosetAntdJsxElementNode ext = Some componentName"
    and "getProperty h (map_of (antdComponentMap res)) componentName = Undefined"
  shows "provideCompletionItems h res ext p = ([GetClosetAntdJsxElementNode], Inl TypeError)"
  using assms by (simp add: provideCompletionItems_def)

text \<open>
  C3 at a completion request inside a \<open>Table.Column\<close> element: the catalog has no entry
  of that name (its key is \<open>TableColumn\<close>, which the hover provider would find through
  \<open>fuzzySearchComponentMapping\<close>), and the request does not answer the empty list: the
  read of \<open>methods\<close> of the absent entry raises a type error, before the test that
  answers the empty list for an element not from the library.
\<close>

theorem unknown_component_raises:
  "provideCompletionItems asciiHost demoResources
     (demoExternals\<lparr>getClosetAntdJsxElementNode := Some (str ''Table.Column'')\<rparr>) demoProvider
     = ([GetClosetAntdJsxElementNode], Inl TypeError)
   \<and> fuzzySearchComponentMapping asciiHost (antdComponentMap demoResources)
       (str ''Table.Column'') = Some (str ''TableColumn'')"
  by (simp add: completion_eval hover_eval demo_eval string_eval)

lemma mapE_member:
  "mapE f xs = Inr ys \<Longrightarrow> y \<in> set ys \<Longrightarrow> \<exists>x\<in>set xs. f x = Inr y"
proof (induction xs arbitrary: ys)
  case Nil
  then show ?case by simp
next
  case (Cons x xs)
  then show ?case by (auto split: sum.splits)
qed

lemma provideCompletionItems_member:
  assumes r: "snd (provideCompletionItems h res ext p) = Inr items" and i: "item \<in> set items"
  shows "\<exists>componentName handlerName.
           transformHandlerToItem h res ext p componentName handlerName (getParentsWhen ext)
             = Inr item"
proof (cases "getClosetAntdJsxElementNode ext")
  case None
  with r i show ?thesis
    by (simp add: provideCompletionItems_def split: if_splits)
next
  case (Some componentName)
  with r i obtain availableHandler where
    m: "mapE (\<lambda>handlerName. transformHandlerToItem h res ext p componentName handlerName
                (getParentsWhen ext)) availableHandler = Inr items"
    by (auto simp: provideCompletionItems_def Let_def
        split: if_splits option.splits Property.splits)
  from mapE_member [OF m i] show ?thesis by blast
qed

text \<open>
  C6, as stated, at the trigger character \<open>@\<close>: it is neither \<open>!\<close> nor absent, and the two
  candidates produced are not of the inquiry form: they carry no insertion kind and no
  insertion text at all.
\<close>

theorem unknown_trigger_counterexample:
  "snd (provideCompletionItems asciiHost demoResources demoExternals
          (demoProvider\<lparr>triggerCharacter := Some (str ''@'')\<rparr>)) =
     Inr [\<lparr>item_label = str ''onClick'', item_kind = Method, item_documentation = None,
           item_insertText = None,
           item_command =
             \<lparr>cmd_title = str ''afterCompletion'',
              cmd_command = str ''antdRush.afterCompletion'',
              arg_range = \<lparr>start_line = 7, start_character = 11,
                           end_line = 7, end_character = 12\<rparr>,
              arg_handlerName = str ''onClick'', arg_insertKind = Undefined,
              arg_classComponentParent = None\<rparr>\<rparr>,
          \<lparr>item_label = str ''onFocus'', item_kind = Method,
           item_documentation =
             Some (MarkdownString (str ''(event) => voidset the handler to handle focus-'')),
           item_insertText = None,
           item_command =
             \<lparr>cmd_title = str ''afterCompletion'',
              cmd_command = str ''antdRush.afterCompletion'',
              arg_range = \<lparr>start_line = 7, start_character = 11,
                           end_line = 7, end_character = 12\<rparr>,
              arg_handlerName = str ''onFocus'', arg_insertKind = Undefined,
              arg_classComponentParent = None\<rparr>\<rparr>]"
  by (simp add: completion_eval demo_eval string_eval)

text \<open>
  C6, amended. For every completion candidate produced, the insertion style follows the
  trigger character: \<open>!\<close> gives the direct assignment form, and \<open>#\<close> or an absent (or
  empty) trigger character gives the inquiry form, whose insertion text is exactly the
  handler name.
\<close>

theorem insertKind_from_triggerCharacter:
  assumes "snd (provideCompletionItems h res ext p) = Inr items" and "item \<in> set items"
  shows "(triggerCharacter p = Some (str ''!'') \<longrightarrow>
            arg_insertKind (item_command item) = Own Direct
            \<and> item_insertText item =
                Some (item_label item @ str ''={''
                      @ (if getParentsWhen ext \<noteq> None then str ''this.'' else [])
                      @ addHandlerPrefix ext (item_label item) @ str ''} ''))
       \<and> (triggerCharacter p = Some (str ''#'') \<or> triggerCharacter p = Some []
            \<or> triggerCharacter p = None \<longrightarrow>
            arg_insertKind (item_command item) = Own Inquiry
            \<and> item_insertText item = Some (item_label item))"
proof -
  from provideCompletionItems_member [OF assms]
  obtain componentName handlerName where
    t: "transformHandlerToItem h res ext p componentName handlerName (getParentsWhen ext)
          = Inr item"
    by blast
  have k1: "getProperty h insertKindMapping (str ''!'') = Own Direct"
    and k2: "getProperty h insertKindMapping (str ''#'') = Own Inquiry"
    by (simp_all add: getProperty_def insertKindMapping_def str_def)
  have ne: "str ''!'' \<noteq> []" "str ''#'' \<noteq> []"
    by (simp_all add: str_def)
  from t show ?thesis
    by (auto simp: transformHandlerToItem_def Let_def k1 k2 ne split: if_splits sum.splits)
qed

text \<open>
  C6, amended, at the \<open>Button\<close> element with the handlers \<open>onClick\<close> and \<open>onFocus\<close>:
  trigger \<open>#\<close> inserts the handler names, trigger \<open>!\<close> inserts the assignments.
\<close>

theorem insertKind_from_triggerCharacter_witness:
  "map item_insertText
     (projr (snd (provideCompletionItems asciiHost demoResources demoExternals demoProvider)))
     = [Some (str ''onClick''), Some (str ''onFocus'')]
   \<and> map item_insertText
     (projr (snd (provideCompletionItems asciiHost demoResources demoExternals
                    (demoProvider\<lparr>triggerCharacter := Some (str ''!'')\<rparr>))))
     = [Some (str ''onClick={handleonClick} ''), Some (str ''onFocus={handleonFocus} '')]"
proof -
  let ?p = "demoProvider\<lparr>triggerCharacter := Some (str ''!'')\<rparr>"
  obtain i1 i2 where
    r1: "snd (provideCompletionItems asciiHost demoResources demoExternals demoProvider)
           = Inr [i1, i2]"
    and l1: "item_label i1 = str ''onClick''" "item_label i2 = str ''onFocus''"
    by (simp add: completion_eval demo_eval string_eval)
  obtain j1 j2 where
    r2: "snd (provideCompletionItems asciiHost demoResources demoExternals ?p) = Inr [j1, j2]"
    and l2: "item_label j1 = str ''onClick''" "item_label j2 = str ''onFocus''"
    by (simp add: completion_eval demo_eval string_eval)
  have t1: "triggerCharacter demoProvider = Some (str ''#'')" by (simp add: demo_eval)
  have t2: "triggerCharacter ?p = Some (str ''!'')" by simp
  have g: "getParentsWhen demoExternals = None"
    "addHandlerPrefix demoExternals = (\<lambda>h. str ''handle'' @ h)" by (simp_all add: demo_eval)
  have a1: "item_insertText i1 = Some (str ''onClick'')"
    using insertKind_from_triggerCharacter [OF r1, of i1] t1 l1 by simp
  have a2: "item_insertText i2 = Some (str ''onFocus'')"
    using insertKind_from_triggerCharacter [OF r1, of i2] t1 l1 by simp
  have b1: "item_insertText j1 = Some (str ''onClick={handleonClick} '')"
    using insertKind_from_triggerCharacter [OF r2, of j1] t2 l2 g by (simp add: str_def)
  have b2: "item_insertText j2 = Some (str ''onFocus={handleonFocus} '')"
    using insertKind_from_triggerCharacter [OF r2, of j2] t2 l2 g by (simp add: str_def)
  show ?thesis by (simp add: r1 r2 a1 a2 b1 b2)
qed

end
